theory Spec2Isabelle
  imports Complex_Main
begin

section \<open>JavaScript values\<close>

text \<open>
  The attributes the engine computes with arrive in different JavaScript types. A
  DECIMAL column read back from MySQL through Sequelize is a string such as
  \<^verbatim>\<open>'1000.00'\<close> (the repository itself calls \<^verbatim>\<open>parseFloat\<close> on such attributes in several
  routes); an attribute set in memory, as by \<^verbatim>\<open>Investment.create\<close>, is a number; a
  nullable column may be \<^verbatim>\<open>null\<close>; the amount of a request body is whatever the JSON
  carried. A number is a real or \<^verbatim>\<open>NaN\<close>: binary floating point and the two infinities
  are not modelled.
\<close>

datatype number = Num real | NaN

datatype jsval = JNull | JNum number | JStr string

subsection \<open>Arithmetic on numbers\<close>

definition num_add :: "number \<Rightarrow> number \<Rightarrow> number" where
  "num_add a b = (case (a, b) of (Num x, Num y) \<Rightarrow> Num (x + y) | _ \<Rightarrow> NaN)"

definition num_sub :: "number \<Rightarrow> number \<Rightarrow> number" where
  "num_sub a b = (case (a, b) of (Num x, Num y) \<Rightarrow> Num (x - y) | _ \<Rightarrow> NaN)"

definition num_mul :: "number \<Rightarrow> number \<Rightarrow> number" where
  "num_mul a b = (case (a, b) of (Num x, Num y) \<Rightarrow> Num (x * y) | _ \<Rightarrow> NaN)"

text \<open>
  Every division of the modelled code has a divisor that is a non-zero constant or is
  guarded to be positive; a zero divisor, where JavaScript gives an infinity or
  \<^verbatim>\<open>NaN\<close>, is \<^verbatim>\<open>NaN\<close> here.
\<close>

definition num_div :: "number \<Rightarrow> number \<Rightarrow> number" where
  "num_div a b =
     (case (a, b) of (Num x, Num y) \<Rightarrow> if y = 0 then NaN else Num (x / y) | _ \<Rightarrow> NaN)"

text \<open>\<^verbatim>\<open>Math.pow\<close> with a whole exponent; any base to the power 0 is 1, \<^verbatim>\<open>NaN\<close> too.\<close>

definition num_pow :: "number \<Rightarrow> nat \<Rightarrow> number" where
  "num_pow a n = (case a of Num x \<Rightarrow> Num (x ^ n) | NaN \<Rightarrow> if n = 0 then Num 1 else NaN)"

definition num_less :: "number \<Rightarrow> number \<Rightarrow> bool" where
  "num_less a b = (case (a, b) of (Num x, Num y) \<Rightarrow> x < y | _ \<Rightarrow> False)"

text \<open>\<^verbatim>\<open>Math.round\<close> rounds to the nearest integer, a tie towards \<open>+\<infinity>\<close>.\<close>

definition Math_round :: "real \<Rightarrow> int" where
  "Math_round x = \<lfloor>x + 1 / 2\<rfloor>"

definition num_round :: "number \<Rightarrow> number" where
  "num_round a = (case a of Num x \<Rightarrow> Num (real_of_int (Math_round x)) | NaN \<Rightarrow> NaN)"

definition Math_ceil :: "real \<Rightarrow> int" where
  "Math_ceil x = \<lceil>x\<rceil>"

subsection \<open>Strings as numbers\<close>

text \<open>
  The numeric reading of a string: an optional sign, digits with an optional fraction,
  an optional exponent. \<open>scanDecimal\<close> reads the longest such prefix and returns its
  value and the rest. Hexadecimal, octal and binary literals and the word
  \<^verbatim>\<open>Infinity\<close> are not read.
\<close>

definition is_digit :: "char \<Rightarrow> bool" where
  "is_digit c = (c \<in> set ''0123456789'')"

definition digit_value :: "char \<Rightarrow> nat" where
  "digit_value c = of_char c - 48"

definition digits_value :: "string \<Rightarrow> nat" where
  "digits_value ds = foldl (\<lambda>n c. 10 * n + digit_value c) 0 ds"

definition scan_sign :: "string \<Rightarrow> bool \<times> string" where
  "scan_sign s =
     (case s of
        [] \<Rightarrow> (False, [])
      | c # t \<Rightarrow> if c = CHR ''-'' then (True, t) else if c = CHR ''+'' then (False, t) else (False, s))"

definition scan_exponent :: "string \<Rightarrow> int \<times> string" where
  "scan_exponent r =
     (case r of
        [] \<Rightarrow> (0, r)
      | c # t \<Rightarrow>
          if c = CHR ''e'' \<or> c = CHR ''E''
          then (let (eneg, t1) = scan_sign t; ed = takeWhile is_digit t1
                in if ed = [] then (0, r)
                   else (if eneg then - int (digits_value ed) else int (digits_value ed),
                         dropWhile is_digit t1))
          else (0, r))"

definition scanDecimal :: "string \<Rightarrow> (real \<times> string) option" where
  "scanDecimal s =
     (let (neg, s1) = scan_sign s;
          ip = takeWhile is_digit s1;
          r1 = dropWhile is_digit s1;
          (fp, r2) =
            (case r1 of
               [] \<Rightarrow> ([], r1)
             | c # t \<Rightarrow>
                 if c = CHR ''.'' \<and> (ip \<noteq> [] \<or> takeWhile is_digit t \<noteq> [])
                 then (takeWhile is_digit t, dropWhile is_digit t)
                 else ([], r1))
      in if ip = [] \<and> fp = [] then None
         else
           let mant = real (digits_value ip) + real (digits_value fp) / 10 ^ length fp;
               (ex, r3) = scan_exponent r2;
               v = (if ex \<ge> 0 then mant * 10 ^ nat ex else mant / 10 ^ nat (- ex))
           in Some (if neg then - v else v, r3))"

definition is_space :: "char \<Rightarrow> bool" where
  "is_space c = (c \<in> set [CHR '' '', CHR 0x09, CHR 0x0A, CHR 0x0B, CHR 0x0C, CHR 0x0D])"

definition strip :: "string \<Rightarrow> string" where
  "strip s = rev (dropWhile is_space (rev (dropWhile is_space s)))"

text \<open>
  \<^verbatim>\<open>Number(s)\<close>, the conversion that the arithmetic and relational operators apply to a
  string: blank is 0, a numeric literal is its value, anything else is \<^verbatim>\<open>NaN\<close>.
\<close>

definition StringToNumber :: "string \<Rightarrow> number" where
  "StringToNumber s =
     (let t = strip s
      in if t = [] then Num 0
         else (case scanDecimal t of
                 Some (v, []) \<Rightarrow> Num v
               | _ \<Rightarrow> NaN))"

definition ToNumber :: "jsval \<Rightarrow> number" where
  "ToNumber v = (case v of JNull \<Rightarrow> Num 0 | JNum n \<Rightarrow> n | JStr s \<Rightarrow> StringToNumber s)"

text \<open>
  \<^verbatim>\<open>parseFloat\<close> reads the longest numeric prefix after leading blanks. A number
  argument is printed and read back, which returns it.
\<close>

definition parseFloat :: "jsval \<Rightarrow> number" where
  "parseFloat v =
     (case v of
        JNull \<Rightarrow> NaN
      | JNum n \<Rightarrow> n
      | JStr s \<Rightarrow> (case scanDecimal (dropWhile is_space s) of
                    Some (x, _) \<Rightarrow> Num x
                  | None \<Rightarrow> NaN))"

text \<open>A value in a boolean position: \<^verbatim>\<open>null\<close>, \<^verbatim>\<open>0\<close>, \<^verbatim>\<open>NaN\<close> and \<^verbatim>\<open>''\<close> are falsy.\<close>

definition truthy :: "jsval \<Rightarrow> bool" where
  "truthy v =
     (case v of
        JNull \<Rightarrow> False
      | JNum (Num x) \<Rightarrow> x \<noteq> 0
      | JNum NaN \<Rightarrow> False
      | JStr s \<Rightarrow> s \<noteq> [])"

subsection \<open>Numbers as strings, and the operators that depend on the types\<close>

fun natToString :: "nat \<Rightarrow> string" where
  "natToString n =
     (if n < 10 then [''0123456789'' ! n]
      else natToString (n div 10) @ [''0123456789'' ! (n mod 10)])"

declare natToString.simps [simp del]

text \<open>
  What lies outside the repository and is left open: how the runtime prints a number
  that is not whole, the calendar arithmetic of \<^verbatim>\<open>Date.prototype.setMonth\<close>, two functions
  of the validation library, and what the database hands back for a stored DECIMAL,
  DATETIME and DATE value.
\<close>

record runtime =
  fractionToString :: "real \<Rightarrow> string"
  addMonths :: "int \<Rightarrow> nat \<Rightarrow> int"
  isUUID :: "string \<Rightarrow> bool"
  trim :: "string \<Rightarrow> string"
  decimalColumn :: "number \<Rightarrow> jsval"
  dateTimeColumn :: "int \<Rightarrow> int"
  dateOnlyColumn :: "int \<Rightarrow> int"

text \<open>\<^verbatim>\<open>String(n)\<close>: a whole number below \<open>10 ^ 21\<close> in magnitude prints as its digits.\<close>

definition NumberToString :: "runtime \<Rightarrow> number \<Rightarrow> string" where
  "NumberToString rt n =
     (case n of
        NaN \<Rightarrow> ''NaN''
      | Num x \<Rightarrow>
          if x = real_of_int \<lfloor>x\<rfloor> \<and> \<bar>x\<bar> < 10 ^ 21
          then (if x < 0 then ''-'' else []) @ natToString (nat \<bar>\<lfloor>x\<rfloor>\<bar>)
          else fractionToString rt x)"

definition ToString :: "runtime \<Rightarrow> jsval \<Rightarrow> string" where
  "ToString rt v = (case v of JNull \<Rightarrow> ''null'' | JNum n \<Rightarrow> NumberToString rt n | JStr s \<Rightarrow> s)"

text \<open>\<^verbatim>\<open>a + b\<close>: concatenation as soon as one operand is a string, addition otherwise.\<close>

definition js_add :: "runtime \<Rightarrow> jsval \<Rightarrow> jsval \<Rightarrow> jsval" where
  "js_add rt a b =
     (case (a, b) of
        (JStr s, _) \<Rightarrow> JStr (s @ ToString rt b)
      | (_, JStr t) \<Rightarrow> JStr (ToString rt a @ t)
      | _ \<Rightarrow> JNum (num_add (ToNumber a) (ToNumber b)))"

text \<open>Strings compare by their code units.\<close>

fun str_less :: "string \<Rightarrow> string \<Rightarrow> bool" where
  "str_less [] [] = False"
| "str_less [] (y # ys) = True"
| "str_less (x # xs) [] = False"
| "str_less (x # xs) (y # ys) =
     (if x = y then str_less xs ys else (of_char x :: nat) < of_char y)"

text \<open>
  \<^verbatim>\<open>a < b\<close>: two strings compare as strings, any other pair as numbers, and a
  comparison with \<^verbatim>\<open>NaN\<close> is false. \<^verbatim>\<open>a > b\<close> is \<open>js_less b a\<close>.
\<close>

definition js_less :: "jsval \<Rightarrow> jsval \<Rightarrow> bool" where
  "js_less a b =
     (case (a, b) of
        (JStr s, JStr t) \<Rightarrow> str_less s t
      | _ \<Rightarrow> num_less (ToNumber a) (ToNumber b))"

section \<open>Data model\<close>

text \<open>
  The Sequelize models of \<^verbatim>\<open>InvestmentProduct\<close> and \<^verbatim>\<open>Investment\<close>. An ENUM column is a
  datatype, a DECIMAL attribute a JavaScript value, a nullable date an \<open>option\<close>. A date
  is the millisecond count that \<^verbatim>\<open>getTime()\<close> returns. \<^verbatim>\<open>tenure_months\<close> is an INTEGER
  validated to lie in 1..600, hence a natural number. The products table is a map from
  the primary key to the row, the investments table the list of its rows.
\<close>

type_synonym uuid = string
type_synonym millis = int

datatype investment_type = Bond | Fd | Mf | Etf | Other

datatype risk_level = Low | Moderate | High

datatype status = Active | Matured | Cancelled

record product =
  investment_type :: investment_type
  tenure_months :: nat
  annual_yield :: jsval
  risk_level :: risk_level
  min_investment :: jsval
  max_investment :: jsval
  is_active :: bool

record investment =
  investment_pk :: uuid
  user_id :: uuid
  product_id :: uuid
  amount :: jsval
  invested_at :: millis
  status :: status
  expected_return :: jsval
  actual_return :: jsval
  maturity_date :: "millis option"
  note_text :: "string option"

record store =
  products :: "uuid \<rightharpoonup> product"
  investments :: "investment list"

text \<open>\<^verbatim>\<open>new Date(d).getTime()\<close>; \<^verbatim>\<open>new Date(null)\<close> is the epoch.\<close>

definition getTime :: "millis option \<Rightarrow> millis" where
  "getTime d = (case d of None \<Rightarrow> 0 | Some t \<Rightarrow> t)"

section \<open>Valuation: instance methods of Investment\<close>

text \<open>
  Both methods take no argument and read the system clock with \<^verbatim>\<open>new Date()\<close>.
  The clock is ambient state of the process: the record \<open>world\<close> holds it, and a method
  is a function of the instance and of the world it runs in.
\<close>

record world =
  system_time :: millis

definition getCurrentValue :: "runtime \<Rightarrow> investment \<Rightarrow> world \<Rightarrow> jsval" where
  "getCurrentValue rt this w =
     (if status this = Matured \<and> truthy (actual_return this) then actual_return this
      else
        let now = system_time w;
            investedDate = invested_at this;
            maturityDate = getTime (maturity_date this);
            totalDuration = maturityDate - investedDate;
            elapsedDuration = now - investedDate
        in if elapsedDuration \<le> 0 then amount this
           else if elapsedDuration \<ge> totalDuration then expected_return this
           else
             let progress = Num (real_of_int elapsedDuration / real_of_int totalDuration);
                 currentValue =
                   js_add rt (amount this)
                     (JNum (num_mul (num_sub (ToNumber (expected_return this))
                                             (ToNumber (amount this)))
                                    progress))
             in JNum (num_div (num_round (num_mul (ToNumber currentValue) (Num 100)))
                              (Num 100)))"

definition msPerDay :: int where
  "msPerDay = 1000 * 60 * 60 * 24"

definition getDaysToMaturity :: "investment \<Rightarrow> world \<Rightarrow> int" where
  "getDaysToMaturity this w =
     (if status this = Matured then 0
      else
        let now = system_time w;
            maturityDate = getTime (maturity_date this);
            diffTime = maturityDate - now;
            diffDays = Math_ceil (real_of_int diffTime / real_of_int msPerDay)
        in max 0 diffDays)"

section \<open>Instance methods of InvestmentProduct and the amount validation\<close>

text \<open>\<^verbatim>\<open>months || this.tenure_months\<close>: a missing or zero \<open>months\<close> falls back to the tenure.\<close>

definition calculateExpectedReturn :: "product \<Rightarrow> jsval \<Rightarrow> nat option \<Rightarrow> number" where
  "calculateExpectedReturn this amt months =
     (let tenureMonths =
            (case months of None \<Rightarrow> tenure_months this
             | Some k \<Rightarrow> if k \<noteq> 0 then k else tenure_months this);
          monthlyRate = num_div (num_div (ToNumber (annual_yield this)) (Num 100)) (Num 12)
      in num_mul (ToNumber amt) (num_pow (num_add (Num 1) monthlyRate) tenureMonths))"

text \<open>
  The two messages of \<^verbatim>\<open>validateInvestmentAmount\<close>, each carrying the bound that the
  template string prints. The function compares its arguments as they are.
\<close>

datatype amount_message = MinimumInvestmentAmountIs jsval | MaximumInvestmentAmountIs jsval

datatype validation = IsValid | NotValid amount_message

definition validateInvestmentAmount :: "jsval \<Rightarrow> product \<Rightarrow> validation" where
  "validateInvestmentAmount amt product =
     (if js_less amt (min_investment product)
      then NotValid (MinimumInvestmentAmountIs (min_investment product))
      else if truthy (max_investment product) \<and> js_less (max_investment product) amt
      then NotValid (MaximumInvestmentAmountIs (max_investment product))
      else IsValid)"

section \<open>Routes of the investment ledger\<close>

text \<open>The error responses of the routes, by status code and \<^verbatim>\<open>error\<close> field.\<close>

datatype route_error =
    ProductNotFound
  | InvalidInvestmentAmount amount_message
  | InvestmentNotFound
  | ValidationFailed
  | CannotCancelMatured
  | InvestmentAlreadyCancelled
  | InternalServerError

subsection \<open>The request validation of POST /\<close>

text \<open>
  The body of a create request. The amount is taken as the JSON carried it, a number or
  a string.
\<close>

record create_body =
  body_product_id :: string
  body_amount :: jsval
  body_notes :: "string option"

text \<open>
  \<^verbatim>\<open>isFloat({ min })\<close> of the validation library looks at the printed value: it must be a
  numeric literal from end to end and at least \<open>min\<close>.
\<close>

definition isFloat_min :: "real \<Rightarrow> jsval \<Rightarrow> bool" where
  "isFloat_min m v =
     (case v of
        JNull \<Rightarrow> False
      | JNum (Num x) \<Rightarrow> m \<le> x
      | JNum NaN \<Rightarrow> False
      | JStr s \<Rightarrow> (case scanDecimal s of Some (x, []) \<Rightarrow> m \<le> x | _ \<Rightarrow> False))"

text \<open>
  \<^verbatim>\<open>validationRules.createInvestment\<close> followed by \<^verbatim>\<open>handleValidationErrors\<close>: the product id
  is a UUID, the amount a float of at least 0.01, the notes, when given, at most 500
  characters after trimming.
\<close>

definition createInvestment_rules :: "runtime \<Rightarrow> create_body \<Rightarrow> bool" where
  "createInvestment_rules rt body =
     (isUUID rt (body_product_id body)
      \<and> isFloat_min (1 / 100) (body_amount body)
      \<and> (case body_notes body of None \<Rightarrow> True | Some t \<Rightarrow> length (trim rt t) \<le> 500))"

subsection \<open>Creating an investment\<close>

text \<open>The \<^verbatim>\<open>beforeCreate\<close> hook.\<close>

definition beforeCreate :: "runtime \<Rightarrow> store \<Rightarrow> investment \<Rightarrow> investment" where
  "beforeCreate rt s inst =
     (case products s (product_id inst) of
        None \<Rightarrow> inst
      | Some product \<Rightarrow>
          inst\<lparr>maturity_date := Some (addMonths rt (invested_at inst) (tenure_months product)),
              expected_return := JNum (calculateExpectedReturn product (amount inst) None)\<rparr>)"

text \<open>The row that the database hands back for an instance it stored.\<close>

definition decimalOf :: "runtime \<Rightarrow> jsval \<Rightarrow> jsval" where
  "decimalOf rt v = (case v of JNull \<Rightarrow> JNull | _ \<Rightarrow> decimalColumn rt (ToNumber v))"

definition asRow :: "runtime \<Rightarrow> investment \<Rightarrow> investment" where
  "asRow rt inst =
     inst\<lparr>amount := decimalOf rt (amount inst),
          invested_at := dateTimeColumn rt (invested_at inst),
          expected_return := decimalOf rt (expected_return inst),
          actual_return := decimalOf rt (actual_return inst),
          maturity_date := map_option (dateOnlyColumn rt) (maturity_date inst)\<rparr>"

definition findByPk_investment :: "store \<Rightarrow> uuid \<Rightarrow> investment option" where
  "findByPk_investment s pk = find (\<lambda>row. investment_pk row = pk) (investments s)"

text \<open>
  \<^verbatim>\<open>Investment.create\<close>: the defaults of the model (a fresh primary key, the system time
  for \<^verbatim>\<open>invested_at\<close>, status \<^verbatim>\<open>active\<close>), the model's validation of the amount (a number,
  \<^verbatim>\<open>min: 0\<close>), whose failure the handler answers with \<^verbatim>\<open>Validation failed\<close>, the hook, and
  the insertion, which the database refuses for an unknown product or a primary key
  already present. It returns the new store and the instance in memory.
\<close>

definition Investment_create ::
  "runtime \<Rightarrow> store \<Rightarrow> world \<Rightarrow> uuid \<Rightarrow> uuid \<Rightarrow> uuid \<Rightarrow> number \<Rightarrow> string option
     \<Rightarrow> route_error + store \<times> investment" where
  "Investment_create rt s w fresh uid pid amt txt =
     (let draft = \<lparr>investment_pk = fresh, user_id = uid, product_id = pid, amount = JNum amt,
                    invested_at = system_time w, status = Active, expected_return = JNull,
                    actual_return = JNull, maturity_date = None, note_text = txt\<rparr>
      in if \<not> (case amt of Num x \<Rightarrow> 0 \<le> x | NaN \<Rightarrow> False) then Inl ValidationFailed
         else
           let inst = beforeCreate rt s draft
           in if products s pid = None \<or> findByPk_investment s fresh \<noteq> None
              then Inl InternalServerError
              else Inr (s\<lparr>investments := investments s @ [asRow rt inst]\<rparr>, inst))"

text \<open>
  \<^verbatim>\<open>POST /\<close>: the request validation, then the handler. The handler looks the active
  product up, validates the amount as the body carried it, creates the investment with
  \<^verbatim>\<open>parseFloat(amount)\<close> and answers with the row read back by its primary key. The
  derived fields of the response are the methods above applied to that row; the user is
  the one the authentication middleware supplies.
\<close>

definition create_route ::
  "runtime \<Rightarrow> store \<Rightarrow> world \<Rightarrow> uuid \<Rightarrow> uuid \<Rightarrow> create_body
     \<Rightarrow> route_error + store \<times> investment" where
  "create_route rt s w fresh uid body =
     (if \<not> createInvestment_rules rt body then Inl ValidationFailed
      else
        let pid = body_product_id body;
            amt = body_amount body;
            txt = map_option (trim rt) (body_notes body)
        in case products s pid of
             None \<Rightarrow> Inl ProductNotFound
           | Some product \<Rightarrow>
               if \<not> is_active product then Inl ProductNotFound
               else (case validateInvestmentAmount amt product of
                       NotValid msg \<Rightarrow> Inl (InvalidInvestmentAmount msg)
                     | IsValid \<Rightarrow>
                         (case Investment_create rt s w fresh uid pid (parseFloat amt) txt of
                            Inl e \<Rightarrow> Inl e
                          | Inr (s', inst) \<Rightarrow>
                              (case findByPk_investment s' (investment_pk inst) of
                                 None \<Rightarrow> Inl InternalServerError
                               | Some createdInvestment \<Rightarrow> Inr (s', createdInvestment)))))"

subsection \<open>Cancelling an investment\<close>

text \<open>
  \<^verbatim>\<open>investment.update({ status: 'cancelled' })\<close> writes the status of the row with the
  instance's primary key and of the instance; no other column is written and the
  statement carries no condition on the stored status.
\<close>

definition update_status :: "store \<Rightarrow> uuid \<Rightarrow> status \<Rightarrow> store" where
  "update_status s pk st =
     s\<lparr>investments :=
         map (\<lambda>row. if investment_pk row = pk then row\<lparr>status := st\<rparr> else row)
           (investments s)\<rparr>"

definition findOne_investment :: "store \<Rightarrow> uuid \<Rightarrow> uuid \<Rightarrow> investment option" where
  "findOne_investment s pk uid =
     find (\<lambda>row. investment_pk row = pk \<and> user_id row = uid) (investments s)"

text \<open>\<^verbatim>\<open>PUT /:id/cancel\<close>, run without interruption.\<close>

definition cancel_route :: "store \<Rightarrow> uuid \<Rightarrow> uuid \<Rightarrow> route_error + store \<times> investment" where
  "cancel_route s pk uid =
     (case findOne_investment s pk uid of
        None \<Rightarrow> Inl InvestmentNotFound
      | Some inst \<Rightarrow>
          if status inst = Matured then Inl CannotCancelMatured
          else if status inst = Cancelled then Inl InvestmentAlreadyCancelled
          else Inr (update_status s (investment_pk inst) Cancelled, inst\<lparr>status := Cancelled\<rparr>))"

subsection \<open>The cancel handler between its two awaits\<close>

text \<open>
  The handler is an \<^verbatim>\<open>async\<close> function: it yields at \<^verbatim>\<open>await Investment.findOne\<close> and
  at \<^verbatim>\<open>await investment.update\<close>, and the event loop may run another request in
  between. A running handler is at one of these points: before the read, holding the
  instance it read and checked, or finished with its response.
\<close>

datatype cancel_handler =
    Reading uuid uuid
  | Updating investment
  | Responded "route_error + investment"

fun cancel_step :: "store \<Rightarrow> cancel_handler \<Rightarrow> store \<times> cancel_handler" where
  "cancel_step s (Reading pk uid) =
     (case findOne_investment s pk uid of
        None \<Rightarrow> (s, Responded (Inl InvestmentNotFound))
      | Some inst \<Rightarrow>
          if status inst = Matured then (s, Responded (Inl CannotCancelMatured))
          else if status inst = Cancelled then (s, Responded (Inl InvestmentAlreadyCancelled))
          else (s, Updating inst))"
| "cancel_step s (Updating inst) =
     (update_status s (investment_pk inst) Cancelled, Responded (Inr (inst\<lparr>status := Cancelled\<rparr>)))"
| "cancel_step s (Responded r) = (s, Responded r)"

text \<open>
  A schedule names, step by step, the handler that the event loop resumes; \<open>run\<close>
  executes it on the store and the running handlers.
\<close>

fun run :: "nat list \<Rightarrow> store \<times> cancel_handler list \<Rightarrow> store \<times> cancel_handler list" where
  "run [] cfg = cfg"
| "run (i # sched) (s, handlers) =
     (if i < length handlers
      then (let (s', h') = cancel_step s (handlers ! i) in run sched (s', handlers[i := h']))
      else run sched (s, handlers))"

definition succeeded :: "cancel_handler \<Rightarrow> bool" where
  "succeeded t = (case t of Responded (Inr _) \<Rightarrow> True | _ \<Rightarrow> False)"

text \<open>
  The six orders in which the four steps of two handlers can run, and among them the
  four in which both handlers read before either has written.
\<close>

definition interleavings :: "nat list list" where
  "interleavings =
     [[0, 0, 1, 1], [0, 1, 0, 1], [0, 1, 1, 0], [1, 0, 0, 1], [1, 0, 1, 0], [1, 1, 0, 0]]"

definition overlapping :: "nat list list" where
  "overlapping = [[0, 1, 0, 1], [0, 1, 1, 0], [1, 0, 0, 1], [1, 0, 1, 0]]"

section \<open>Portfolio allocation\<close>

text \<open>
  The three allocation objects of \<^verbatim>\<open>GET /allocation\<close> are maps from their keys to the
  accumulated value. The keys of the tenure object are the four range labels.
\<close>

datatype tenure_range = Months_0_12 | Months_13_24 | Months_25_36 | Months_37_plus

definition all_investment_types :: "investment_type list" where
  "all_investment_types = [Bond, Fd, Mf, Etf, Other]"

definition all_risk_levels :: "risk_level list" where
  "all_risk_levels = [Low, Moderate, High]"

definition all_tenure_ranges :: "tenure_range list" where
  "all_tenure_ranges = [Months_0_12, Months_13_24, Months_25_36, Months_37_plus]"

text \<open>
  \<^verbatim>\<open>Object.keys\<close> of an allocation object whose keys are drawn from the listed ones.
  The order is the listing's, not the order of insertion; only the number of keys and
  the values under them are used.
\<close>

definition objectKeys :: "'k list \<Rightarrow> ('k \<rightharpoonup> 'v) \<Rightarrow> 'k list" where
  "objectKeys universe obj = filter (\<lambda>k. obj k \<noteq> None) universe"

text \<open>\<^verbatim>\<open>obj[key] = (obj[key] || 0) + v\<close>; a missing key reads as undefined, which is falsy.\<close>

definition accumulate :: "runtime \<Rightarrow> ('k \<rightharpoonup> jsval) \<Rightarrow> 'k \<Rightarrow> jsval \<Rightarrow> ('k \<rightharpoonup> jsval)" where
  "accumulate rt obj key v =
     obj(key \<mapsto>
       js_add rt (case obj key of
                    None \<Rightarrow> JNum (Num 0)
                  | Some x \<Rightarrow> if truthy x then x else JNum (Num 0))
                 v)"

definition tenureRange :: "nat \<Rightarrow> tenure_range" where
  "tenureRange tenure =
     (if tenure \<le> 12 then Months_0_12
      else if tenure \<le> 24 then Months_13_24
      else if tenure \<le> 36 then Months_25_36
      else Months_37_plus)"

record allocations =
  typeAllocation :: "investment_type \<rightharpoonup> jsval"
  riskAllocation :: "risk_level \<rightharpoonup> jsval"
  tenureAllocation :: "tenure_range \<rightharpoonup> jsval"
  totalValue :: jsval

definition no_allocations :: allocations where
  "no_allocations =
     \<lparr>typeAllocation = Map.empty, riskAllocation = Map.empty,
      tenureAllocation = Map.empty, totalValue = JNum (Num 0)\<rparr>"

text \<open>
  The body of the \<^verbatim>\<open>forEach\<close>, for an investment whose product was joined. The current
  value is added as \<^verbatim>\<open>getCurrentValue\<close> returned it.
\<close>

definition allocation_body ::
  "runtime \<Rightarrow> world \<Rightarrow> investment \<Rightarrow> product \<Rightarrow> allocations \<Rightarrow> allocations" where
  "allocation_body rt w inst product acc =
     (let currentValue = getCurrentValue rt inst w;
          type = investment_type product;
          risk = risk_level product;
          tenure = tenure_months product
      in \<lparr>typeAllocation = accumulate rt (typeAllocation acc) type currentValue,
          riskAllocation = accumulate rt (riskAllocation acc) risk currentValue,
          tenureAllocation =
            accumulate rt (tenureAllocation acc) (tenureRange tenure) currentValue,
          totalValue = js_add rt (totalValue acc) currentValue\<rparr>)"

text \<open>
  The \<^verbatim>\<open>forEach\<close> over the joined rows. The include is an outer join: a row whose
  product is missing has \<^verbatim>\<open>product\<close> null, reading its type throws, and the handler's
  \<^verbatim>\<open>catch\<close> answers 500. The loop is synchronous; it runs in one world, every
  \<^verbatim>\<open>getCurrentValue\<close> of it reading the same time.
\<close>

fun allocation_forEach ::
  "runtime \<Rightarrow> world \<Rightarrow> (investment \<times> product option) list \<Rightarrow> allocations
     \<Rightarrow> route_error + allocations" where
  "allocation_forEach rt w [] acc = Inr acc"
| "allocation_forEach rt w ((inst, None) # rows) acc = Inl InternalServerError"
| "allocation_forEach rt w ((inst, Some product) # rows) acc =
     allocation_forEach rt w rows (allocation_body rt w inst product acc)"

record bucket =
  bucket_value :: jsval
  percentage :: number

text \<open>\<^verbatim>\<open>totalValue > 0 ? (allocation[key] / totalValue) * 100 : 0\<close>\<close>

definition convertToPercentages :: "jsval \<Rightarrow> ('k \<rightharpoonup> jsval) \<Rightarrow> ('k \<rightharpoonup> bucket)" where
  "convertToPercentages total_value allocation =
     (\<lambda>key. case allocation key of
        None \<Rightarrow> None
      | Some v \<Rightarrow>
          Some \<lparr>bucket_value = v,
                percentage =
                  (if js_less (JNum (Num 0)) total_value
                   then num_mul (num_div (ToNumber v) (ToNumber total_value)) (Num 100)
                   else Num 0)\<rparr>)"

definition calculateDiversificationScore ::
  "(investment_type \<rightharpoonup> 'a) \<Rightarrow> (risk_level \<rightharpoonup> 'b) \<Rightarrow> int" where
  "calculateDiversificationScore typeAlloc riskAlloc =
     (let typeCount = length (objectKeys all_investment_types typeAlloc);
          riskCount = length (objectKeys all_risk_levels riskAlloc);
          maxTypes = 5;
          maxRisks = 3;
          typeScore = min (real typeCount / maxTypes) 1 * 60;
          riskScore = min (real riskCount / maxRisks) 1 * 40
      in Math_round (typeScore + riskScore))"

record allocation_data =
  total_portfolio_value :: jsval
  by_type :: "investment_type \<rightharpoonup> bucket"
  by_risk :: "risk_level \<rightharpoonup> bucket"
  by_tenure :: "tenure_range \<rightharpoonup> bucket"
  diversification_score :: int

text \<open>
  The query of the route: the rows of the user with status \<^verbatim>\<open>active\<close>, each with its
  product.
\<close>

definition findAll_active :: "store \<Rightarrow> uuid \<Rightarrow> (investment \<times> product option) list" where
  "findAll_active s uid =
     map (\<lambda>row. (row, products s (product_id row)))
       (filter (\<lambda>row. user_id row = uid \<and> status row = Active) (investments s))"

definition allocation_route ::
  "runtime \<Rightarrow> store \<Rightarrow> world \<Rightarrow> uuid \<Rightarrow> route_error + allocation_data" where
  "allocation_route rt s w uid =
     (case allocation_forEach rt w (findAll_active s uid) no_allocations of
        Inl e \<Rightarrow> Inl e
      | Inr acc \<Rightarrow>
          Inr \<lparr>total_portfolio_value = totalValue acc,
               by_type = convertToPercentages (totalValue acc) (typeAllocation acc),
               by_risk = convertToPercentages (totalValue acc) (riskAllocation acc),
               by_tenure = convertToPercentages (totalValue acc) (tenureAllocation acc),
               diversification_score =
                 calculateDiversificationScore (typeAllocation acc) (riskAllocation acc)\<rparr>)"

text \<open>The percentages of the buckets of one axis, in the order of the listed keys.\<close>

definition percentages :: "'k list \<Rightarrow> ('k \<rightharpoonup> bucket) \<Rightarrow> number list" where
  "percentages universe buckets =
     map (\<lambda>key. case buckets key of None \<Rightarrow> Num 0 | Some b \<Rightarrow> percentage b)
       (objectKeys universe buckets)"

section \<open>Sample data\<close>

text \<open>
  An instance of what is left open, for evaluation: thirty-day months, a UUID test by
  shape, blanks trimmed at both ends, and a database that keeps what it is given.
\<close>

definition uuid_shaped :: "string \<Rightarrow> bool" where
  "uuid_shaped s =
     list_all2
       (\<lambda>c t. if t = CHR ''-'' then c = CHR ''-'' else c \<in> set ''0123456789abcdefABCDEF'')
       s ''xxxxxxxx-xxxx-xxxx-xxxx-xxxxxxxxxxxx''"

definition demo_runtime :: runtime where
  "demo_runtime =
     \<lparr>fractionToString = (\<lambda>x. ''?''),
      addMonths = (\<lambda>t k. t + int k * 2592000000),
      isUUID = uuid_shaped,
      trim = strip,
      decimalColumn = JNum,
      dateTimeColumn = (\<lambda>t. t),
      dateOnlyColumn = (\<lambda>t. t)\<rparr>"

definition bond_id :: uuid where
  "bond_id = ''11111111-1111-4111-8111-111111111111''"

definition fund_id :: uuid where
  "fund_id = ''22222222-2222-4222-8222-222222222222''"

text \<open>An instance in memory, its amounts numbers, invested at time 0 for ten days.\<close>

definition demo_investment :: investment where
  "demo_investment =
     \<lparr>investment_pk = ''i1'', user_id = ''u1'', product_id = bond_id, amount = JNum (Num 1000),
      invested_at = 0, status = Active, expected_return = JNum (Num 1100),
      actual_return = JNull, maturity_date = Some 864000000, note_text = None\<rparr>"

text \<open>The same investment as a row read from the database, its amounts DECIMAL strings.\<close>

definition stored_investment :: investment where
  "stored_investment =
     demo_investment\<lparr>amount := JStr ''1000.00'', expected_return := JStr ''1100.00''\<rparr>"

definition demo_product :: product where
  "demo_product =
     \<lparr>investment_type = Bond, tenure_months = 12, annual_yield = JStr ''12.00'',
      risk_level = Low, min_investment = JStr ''1000.00'',
      max_investment = JStr ''100000.00'', is_active = True\<rparr>"

definition demo_store :: store where
  "demo_store =
     \<lparr>products = [bond_id \<mapsto> demo_product],
      investments = [demo_investment]\<rparr>"

text \<open>
  A stored portfolio: a bond and a fund investment of one user, both active, and a
  cancelled one.
\<close>

definition stored_portfolio :: store where
  "stored_portfolio =
     \<lparr>products =
        [bond_id \<mapsto> demo_product,
         fund_id \<mapsto> demo_product\<lparr>investment_type := Mf, tenure_months := 24,
                                     risk_level := High\<rparr>],
      investments =
        [stored_investment,
         stored_investment\<lparr>investment_pk := ''i2'', product_id := fund_id,
                            amount := JStr ''3000.00'', expected_return := JStr ''3600.00''\<rparr>,
         stored_investment\<lparr>investment_pk := ''i3'', status := Cancelled\<rparr>]\<rparr>"

section \<open>Properties of the valuation\<close>

lemma num_simps:
  "num_add (Num x) (Num y) = Num (x + y)"
  "num_sub (Num x) (Num y) = Num (x - y)"
  "num_mul (Num x) (Num y) = Num (x * y)"
  "y \<noteq> 0 \<Longrightarrow> num_div (Num x) (Num y) = Num (x / y)"
  "num_pow (Num x) n = Num (x ^ n)"
  "num_round (Num x) = Num (real_of_int (Math_round x))"
  "num_less (Num x) (Num y) = (x < y)"
  by (simp_all add: num_add_def num_sub_def num_mul_def num_div_def num_pow_def num_round_def
      num_less_def)

lemma ToNumber_simps:
  "ToNumber JNull = Num 0"
  "ToNumber (JNum n) = n"
  "ToNumber (JStr s) = StringToNumber s"
  by (simp_all add: ToNumber_def)

lemma js_add_numbers: "js_add rt (JNum a) (JNum b) = JNum (num_add a b)"
  by (simp add: js_add_def ToNumber_simps)

lemmas scan_defs = StringToNumber_def strip_def is_space_def scanDecimal_def scan_sign_def
  scan_exponent_def is_digit_def digits_value_def digit_value_def Let_def

lemma getCurrentValue_unsettled:
  assumes "status this \<noteq> Matured \<or> \<not> truthy (actual_return this)"
  shows "getCurrentValue rt this w =
     (if system_time w \<le> invested_at this then amount this
      else if getTime (maturity_date this) \<le> system_time w then expected_return this
      else JNum (num_div (num_round (num_mul
             (ToNumber (js_add rt (amount this)
                (JNum (num_mul (num_sub (ToNumber (expected_return this)) (ToNumber (amount this)))
                   (Num (real_of_int (system_time w - invested_at this)
                         / real_of_int (getTime (maturity_date this) - invested_at this)))))))
             (Num 100))) (Num 100)))"
  using assms by (auto simp add: getCurrentValue_def Let_def)

lemma interpolation_numbers:
  "JNum (num_div (num_round (num_mul
             (ToNumber (js_add rt (JNum (Num a))
                (JNum (num_mul (num_sub (ToNumber (JNum (Num e))) (ToNumber (JNum (Num a))))
                   (Num p)))))
             (Num 100))) (Num 100))
   = JNum (Num (real_of_int (Math_round ((a + (e - a) * p) * 100)) / 100))"
  by (simp add: js_add_numbers ToNumber_simps num_simps)

text \<open>
  Claim C1 fails on a row read from the database, whose amounts are DECIMAL strings. A
  quarter of the way from \<^verbatim>\<open>invested_at\<close> to \<^verbatim>\<open>maturity_date\<close>, with amount \<^verbatim>\<open>'1000.00'\<close> and
  expected return \<^verbatim>\<open>'1100.00'\<close>, the claim asks for 1025. The method adds the gain of 25
  to the amount with \<^verbatim>\<open>+\<close>, which concatenates to \<^verbatim>\<open>'1000.0025'\<close>, and returns 1000. The
  same investment held in memory with numeric amounts is valued at 1025. On numeric
  attributes the guard of the settled value fails instead: a matured investment whose
  \<^verbatim>\<open>actual_return\<close> is the number 0 is valued by the clock, at its expected return.
\<close>

theorem getCurrentValue_stored_row:
  "getCurrentValue rt stored_investment \<lparr>system_time = 216000000\<rparr> = JNum (Num 1000)
   \<and> getCurrentValue rt demo_investment \<lparr>system_time = 216000000\<rparr> = JNum (Num 1025)
   \<and> js_add rt (amount stored_investment) (JNum (Num 25)) = JStr ''1000.0025''
   \<and> getCurrentValue rt (demo_investment\<lparr>status := Matured, actual_return := JNum (Num 0)\<rparr>)
         \<lparr>system_time = 864000000\<rparr> = JNum (Num 1100)
   \<and> getCurrentValue rt (stored_investment\<lparr>status := Matured, actual_return := JStr ''0.00''\<rparr>)
         \<lparr>system_time = 864000000\<rparr> = JStr ''0.00''"
  by (simp add: getCurrentValue_def stored_investment_def demo_investment_def truthy_def
      getTime_def js_add_def ToString_def NumberToString_def natToString.simps ToNumber_simps
      num_simps scan_defs Math_round_def)

lemma days_nonneg: "0 \<le> getDaysToMaturity this w"
  by (simp add: getDaysToMaturity_def Let_def)

lemma days_active:
  "status this \<noteq> Matured \<Longrightarrow>
   getDaysToMaturity this w =
     max 0 \<lceil>real_of_int (getTime (maturity_date this) - system_time w) / real_of_int msPerDay\<rceil>"
  by (simp add: getDaysToMaturity_def Let_def Math_ceil_def)

lemma msPerDay_pos: "0 < msPerDay"
  by (simp add: msPerDay_def)

lemma days_zero_iff:
  assumes "status this \<noteq> Matured"
  shows "getDaysToMaturity this w = 0 \<longleftrightarrow> getTime (maturity_date this) \<le> system_time w"
proof -
  let ?x = "real_of_int (getTime (maturity_date this) - system_time w) / real_of_int msPerDay"
  have "max 0 \<lceil>?x\<rceil> = 0 \<longleftrightarrow> \<lceil>?x\<rceil> \<le> 0"
    by linarith
  also have "\<dots> \<longleftrightarrow> ?x \<le> 0"
    by (simp add: ceiling_le_zero)
  also have "\<dots> \<longleftrightarrow> getTime (maturity_date this) \<le> system_time w"
    using msPerDay_pos by (simp add: divide_le_0_iff)
  finally show ?thesis
    using assms by (simp add: days_active)
qed

lemma days_mono:
  assumes "system_time w \<le> system_time w'"
  shows "getDaysToMaturity this w' \<le> getDaysToMaturity this w"
proof (cases "status this = Matured")
  case True
  then show ?thesis by (simp add: getDaysToMaturity_def)
next
  case False
  have "real_of_int (getTime (maturity_date this) - system_time w') / real_of_int msPerDay
        \<le> real_of_int (getTime (maturity_date this) - system_time w) / real_of_int msPerDay"
    using assms msPerDay_pos by (simp add: divide_right_mono)
  then have "\<lceil>real_of_int (getTime (maturity_date this) - system_time w') / real_of_int msPerDay\<rceil>
        \<le> \<lceil>real_of_int (getTime (maturity_date this) - system_time w) / real_of_int msPerDay\<rceil>"
    by (rule ceiling_mono)
  with False show ?thesis by (simp add: days_active)
qed

lemma days_strict:
  assumes nm: "status this \<noteq> Matured"
    and adv: "system_time w + msPerDay \<le> system_time w'"
    and before: "system_time w < getTime (maturity_date this)"
  shows "getDaysToMaturity this w' < getDaysToMaturity this w"
proof -
  let ?m = "getTime (maturity_date this)"
  let ?d = "real_of_int msPerDay"
  have dpos: "0 < ?d" using msPerDay_pos by simp
  have "real_of_int (?m - system_time w') \<le> real_of_int (?m - system_time w) - ?d"
    using adv by linarith
  then have "real_of_int (?m - system_time w') / ?d \<le> (real_of_int (?m - system_time w) - ?d) / ?d"
    using dpos by (simp add: divide_right_mono)
  also have "\<dots> = real_of_int (?m - system_time w) / ?d - 1"
    using dpos by (simp add: diff_divide_distrib)
  finally have "\<lceil>real_of_int (?m - system_time w') / ?d\<rceil>
      \<le> \<lceil>real_of_int (?m - system_time w) / ?d - 1\<rceil>"
    by (rule ceiling_mono)
  then have le: "\<lceil>real_of_int (?m - system_time w') / ?d\<rceil>
      \<le> \<lceil>real_of_int (?m - system_time w) / ?d\<rceil> - 1"
    by simp
  have "0 < real_of_int (?m - system_time w) / ?d"
    using before dpos by simp
  then have pos: "0 < \<lceil>real_of_int (?m - system_time w) / ?d\<rceil>"
    by (simp add: zero_less_ceiling)
  from le pos nm show ?thesis
    by (simp add: days_active)
qed

text \<open>
  Claim C4, as the code has it. \<^verbatim>\<open>getDaysToMaturity\<close> is never negative and is \<open>0\<close> for
  a matured investment. For any other status it is the ceiling of the days from the
  clock to \<^verbatim>\<open>maturity_date\<close>, floored at \<open>0\<close>, and it is \<open>0\<close> exactly when the clock has
  reached \<^verbatim>\<open>maturity_date\<close>. It never increases as the clock advances, and it strictly
  decreases when the clock advances by a day or more from a time before
  \<^verbatim>\<open>maturity_date\<close>.
\<close>

theorem getDaysToMaturity_props:
  "0 \<le> getDaysToMaturity this w \<and>
   (status this = Matured \<longrightarrow> getDaysToMaturity this w = 0) \<and>
   (status this \<noteq> Matured \<longrightarrow>
      getDaysToMaturity this w =
        max 0 \<lceil>real_of_int (getTime (maturity_date this) - system_time w) / real_of_int msPerDay\<rceil>
      \<and> (getDaysToMaturity this w = 0 \<longleftrightarrow> getTime (maturity_date this) \<le> system_time w)) \<and>
   (system_time w \<le> system_time w' \<longrightarrow> getDaysToMaturity this w' \<le> getDaysToMaturity this w) \<and>
   (status this \<noteq> Matured \<and> system_time w + msPerDay \<le> system_time w'
      \<and> system_time w < getTime (maturity_date this)
      \<longrightarrow> getDaysToMaturity this w' < getDaysToMaturity this w)"
proof (intro conjI impI)
  show "0 \<le> getDaysToMaturity this w" by (rule days_nonneg)
next
  assume "status this = Matured"
  then show "getDaysToMaturity this w = 0" by (simp add: getDaysToMaturity_def)
next
  assume "status this \<noteq> Matured"
  then show "getDaysToMaturity this w =
        max 0 \<lceil>real_of_int (getTime (maturity_date this) - system_time w) / real_of_int msPerDay\<rceil>"
    by (rule days_active)
next
  assume "status this \<noteq> Matured"
  then show "getDaysToMaturity this w = 0 \<longleftrightarrow> getTime (maturity_date this) \<le> system_time w"
    by (rule days_zero_iff)
next
  assume "system_time w \<le> system_time w'"
  then show "getDaysToMaturity this w' \<le> getDaysToMaturity this w" by (rule days_mono)
next
  assume "status this \<noteq> Matured \<and> system_time w + msPerDay \<le> system_time w'
      \<and> system_time w < getTime (maturity_date this)"
  then show "getDaysToMaturity this w' < getDaysToMaturity this w"
    by (simp add: days_strict)
qed

theorem getDaysToMaturity_props_witness:
  "getDaysToMaturity (demo_investment\<lparr>status := Matured\<rparr>) \<lparr>system_time = 0\<rparr> = 0
   \<and> getDaysToMaturity demo_investment \<lparr>system_time = 1\<rparr> = 10
   \<and> getDaysToMaturity demo_investment \<lparr>system_time = 86400001\<rparr> < 10"
  using
    getDaysToMaturity_props [of "demo_investment\<lparr>status := Matured\<rparr>" "\<lparr>system_time = 0\<rparr>"
      "\<lparr>system_time = 0\<rparr>"]
    getDaysToMaturity_props [of demo_investment "\<lparr>system_time = 1\<rparr>" "\<lparr>system_time = 86400001\<rparr>"]
  by (simp add: demo_investment_def getTime_def msPerDay_def)

text \<open>
  Claim C4 as stated fails twice: an active investment has \<open>0\<close> days left once the clock
  reaches its maturity date, and within one day the count does not move as the clock
  advances.
\<close>

theorem getDaysToMaturity_counterexample:
  "status demo_investment \<noteq> Matured
   \<and> getDaysToMaturity demo_investment \<lparr>system_time = 864000000\<rparr> = 0
   \<and> getDaysToMaturity demo_investment \<lparr>system_time = 1\<rparr> = 10
   \<and> getDaysToMaturity demo_investment \<lparr>system_time = 2\<rparr> = 10"
  by (simp add: demo_investment_def getDaysToMaturity_def getTime_def msPerDay_def Math_ceil_def)

text \<open>
  Claim C10. A cancelled investment is valued as an active one: \<^verbatim>\<open>getCurrentValue\<close> and
  \<^verbatim>\<open>getDaysToMaturity\<close> return what they return for the same investment with status
  active. The value is the time interpolation: the amount up to \<^verbatim>\<open>invested_at\<close>, the
  expected return from \<^verbatim>\<open>maturity_date\<close> on, and in between the rounded result of
  \<^verbatim>\<open>amount + (expected_return - amount) * progress\<close>, which for numeric attributes is the
  linear interpolation rounded to two decimals. The days are the ceiling of the days to
  \<^verbatim>\<open>maturity_date\<close> floored at \<open>0\<close>, positive before that date.
\<close>

theorem cancelled_valued_as_active:
  assumes "status this = Cancelled"
  shows "getCurrentValue rt this w = getCurrentValue rt (this\<lparr>status := Active\<rparr>) w
   \<and> getDaysToMaturity this w = getDaysToMaturity (this\<lparr>status := Active\<rparr>) w
   \<and> (system_time w \<le> invested_at this \<longrightarrow> getCurrentValue rt this w = amount this)
   \<and> (maturity_date this = Some m \<and> invested_at this < system_time w \<and> m \<le> system_time w
        \<longrightarrow> getCurrentValue rt this w = expected_return this)
   \<and> (maturity_date this = Some m \<and> invested_at this < system_time w \<and> system_time w < m
        \<longrightarrow> getCurrentValue rt this w
            = JNum (num_div (num_round (num_mul
                (ToNumber (js_add rt (amount this)
                   (JNum (num_mul
                      (num_sub (ToNumber (expected_return this)) (ToNumber (amount this)))
                      (Num (real_of_int (system_time w - invested_at this)
                            / real_of_int (m - invested_at this)))))))
                (Num 100))) (Num 100)))
   \<and> (maturity_date this = Some m \<and> amount this = JNum (Num a)
        \<and> expected_return this = JNum (Num e)
        \<and> invested_at this < system_time w \<and> system_time w < m
        \<longrightarrow> getCurrentValue rt this w
            = JNum (Num (real_of_int (Math_round
                ((a + (e - a) * (real_of_int (system_time w - invested_at this)
                                 / real_of_int (m - invested_at this))) * 100)) / 100)))
   \<and> getDaysToMaturity this w =
        max 0 \<lceil>real_of_int (getTime (maturity_date this) - system_time w) / real_of_int msPerDay\<rceil>
   \<and> (system_time w < getTime (maturity_date this) \<longrightarrow> 0 < getDaysToMaturity this w)"
proof -
  have u: "status this \<noteq> Matured \<or> \<not> truthy (actual_return this)"
    using assms by simp
  note cv = getCurrentValue_unsettled [OF u, of rt w]
  have same: "getCurrentValue rt this w = getCurrentValue rt (this\<lparr>status := Active\<rparr>) w"
    using assms by (simp add: getCurrentValue_def Let_def)
  have days: "getDaysToMaturity this w = getDaysToMaturity (this\<lparr>status := Active\<rparr>) w"
    using assms by (simp add: getDaysToMaturity_def)
  have early: "getCurrentValue rt this w = amount this" if "system_time w \<le> invested_at this"
    using that by (simp add: cv)
  have late: "getCurrentValue rt this w = expected_return this"
    if "maturity_date this = Some m \<and> invested_at this < system_time w \<and> m \<le> system_time w"
    using that by (simp add: cv getTime_def)
  have between: "getCurrentValue rt this w
            = JNum (num_div (num_round (num_mul
                (ToNumber (js_add rt (amount this)
                   (JNum (num_mul
                      (num_sub (ToNumber (expected_return this)) (ToNumber (amount this)))
                      (Num (real_of_int (system_time w - invested_at this)
                            / real_of_int (m - invested_at this)))))))
                (Num 100))) (Num 100))"
    if "maturity_date this = Some m \<and> invested_at this < system_time w \<and> system_time w < m"
    using that by (simp add: cv getTime_def)
  have numbers: "getCurrentValue rt this w
            = JNum (Num (real_of_int (Math_round
                ((a + (e - a) * (real_of_int (system_time w - invested_at this)
                                 / real_of_int (m - invested_at this))) * 100)) / 100))"
    if h: "maturity_date this = Some m \<and> amount this = JNum (Num a)
        \<and> expected_return this = JNum (Num e)
        \<and> invested_at this < system_time w \<and> system_time w < m"
  proof -
    from h have "maturity_date this = Some m \<and> invested_at this < system_time w
        \<and> system_time w < m" by simp
    from between [OF this] h show ?thesis
      by (simp only: interpolation_numbers)
  qed
  have formula: "getDaysToMaturity this w =
        max 0 \<lceil>real_of_int (getTime (maturity_date this) - system_time w) / real_of_int msPerDay\<rceil>"
    using assms by (simp add: days_active)
  have positive: "0 < getDaysToMaturity this w" if "system_time w < getTime (maturity_date this)"
  proof -
    have "getDaysToMaturity this w \<noteq> 0"
      using that assms days_zero_iff [of this w] by simp
    with days_nonneg [of this w] show ?thesis by linarith
  qed
  from same days early late between numbers formula positive show ?thesis
    by blast
qed

theorem cancelled_valued_as_active_witness:
  "getCurrentValue demo_runtime (demo_investment\<lparr>status := Cancelled\<rparr>) \<lparr>system_time = 0\<rparr>
      = JNum (Num 1000)
   \<and> getCurrentValue demo_runtime (demo_investment\<lparr>status := Cancelled\<rparr>) \<lparr>system_time = 432000000\<rparr>
      = JNum (Num 1050)
   \<and> getCurrentValue demo_runtime (demo_investment\<lparr>status := Cancelled\<rparr>) \<lparr>system_time = 864000000\<rparr>
      = JNum (Num 1100)
   \<and> getDaysToMaturity (demo_investment\<lparr>status := Cancelled\<rparr>) \<lparr>system_time = 1\<rparr> = 10"
  using
    cancelled_valued_as_active [of "demo_investment\<lparr>status := Cancelled\<rparr>" demo_runtime
      "\<lparr>system_time = 0\<rparr>" 864000000 1000 1100]
    cancelled_valued_as_active [of "demo_investment\<lparr>status := Cancelled\<rparr>" demo_runtime
      "\<lparr>system_time = 432000000\<rparr>" 864000000 1000 1100]
    cancelled_valued_as_active [of "demo_investment\<lparr>status := Cancelled\<rparr>" demo_runtime
      "\<lparr>system_time = 864000000\<rparr>" 864000000 1000 1100]
    cancelled_valued_as_active [of "demo_investment\<lparr>status := Cancelled\<rparr>" demo_runtime
      "\<lparr>system_time = 1\<rparr>" 864000000 1000 1100]
  by (simp add: demo_investment_def getTime_def msPerDay_def Math_round_def Math_ceil_def
      getCurrentValue_def getDaysToMaturity_def truthy_def js_add_numbers ToNumber_simps
      num_simps)

text \<open>
  Claim C3, as the code has it. The valuation reads take the time from the system clock
  inside the call, not from an injected collaborator. Their results are determined by
  that clock reading and by the investment's own status, amount, dates and returns:
  two evaluations that agree on these yield identical results, whatever the user, the
  product reference and the notes are.
\<close>

theorem valuation_inputs:
  assumes "system_time w = system_time w'"
    and "status a = status b" and "amount a = amount b"
    and "invested_at a = invested_at b" and "maturity_date a = maturity_date b"
    and "expected_return a = expected_return b" and "actual_return a = actual_return b"
  shows "getCurrentValue rt a w = getCurrentValue rt b w'
     \<and> getDaysToMaturity a w = getDaysToMaturity b w'"
  using assms by (simp add: getCurrentValue_def getDaysToMaturity_def Let_def)

theorem valuation_inputs_witness:
  "getCurrentValue demo_runtime (demo_investment\<lparr>user_id := ''u2'', product_id := ''p2'', note_text := Some ''x''\<rparr>)
       \<lparr>system_time = 432000000\<rparr>
     = getCurrentValue demo_runtime demo_investment \<lparr>system_time = 432000000\<rparr>
   \<and> getDaysToMaturity (demo_investment\<lparr>user_id := ''u2'', product_id := ''p2'', note_text := Some ''x''\<rparr>)
       \<lparr>system_time = 432000000\<rparr>
     = getDaysToMaturity demo_investment \<lparr>system_time = 432000000\<rparr>"
  using valuation_inputs [of "\<lparr>system_time = 432000000\<rparr>" "\<lparr>system_time = 432000000\<rparr>"
      "demo_investment\<lparr>user_id := ''u2'', product_id := ''p2'', note_text := Some ''x''\<rparr>"
      demo_investment demo_runtime]
  by simp

text \<open>
  Claim C3 as stated fails: the same investment, evaluated under two readings of the
  ambient system clock, has two current values and two day counts.
\<close>

theorem valuation_ambient_clock_counterexample:
  "getCurrentValue demo_runtime demo_investment \<lparr>system_time = 0\<rparr> = JNum (Num 1000)
   \<and> getCurrentValue demo_runtime demo_investment \<lparr>system_time = 864000000\<rparr> = JNum (Num 1100)
   \<and> getDaysToMaturity demo_investment \<lparr>system_time = 0\<rparr> = 10
   \<and> getDaysToMaturity demo_investment \<lparr>system_time = 864000000\<rparr> = 0"
  by (simp add: demo_investment_def getCurrentValue_def getDaysToMaturity_def getTime_def
      msPerDay_def Math_ceil_def truthy_def)

section \<open>Properties of the investment ledger\<close>

lemma find_append_last:
  assumes "find P xs = None" and "P y"
  shows "find P (xs @ [y]) = Some y"
  using assms by (induction xs) (auto split: if_splits)

lemma Investment_create_InrD:
  assumes "Investment_create rt s w fresh uid pid amt txt = Inr (s', inst)"
  shows "\<exists>a. amt = Num a \<and> 0 \<le> a
           \<and> inst = beforeCreate rt s
                 \<lparr>investment_pk = fresh, user_id = uid, product_id = pid, amount = JNum amt,
                  invested_at = system_time w, status = Active, expected_return = JNull,
                  actual_return = JNull, maturity_date = None, note_text = txt\<rparr>
           \<and> products s pid \<noteq> None
           \<and> findByPk_investment s fresh = None
           \<and> investments s' = investments s @ [asRow rt inst]"
  using assms
  by (cases amt) (auto simp add: Investment_create_def Let_def split: if_splits)

lemma beforeCreate_fields:
  assumes "products s pid = Some product"
  shows "investment_pk (beforeCreate rt s
            \<lparr>investment_pk = fresh, user_id = uid, product_id = pid, amount = v,
             invested_at = t, status = st, expected_return = JNull,
             actual_return = JNull, maturity_date = None, note_text = txt\<rparr>) = fresh"
    and "amount (beforeCreate rt s
            \<lparr>investment_pk = fresh, user_id = uid, product_id = pid, amount = v,
             invested_at = t, status = st, expected_return = JNull,
             actual_return = JNull, maturity_date = None, note_text = txt\<rparr>) = v"
    and "expected_return (beforeCreate rt s
            \<lparr>investment_pk = fresh, user_id = uid, product_id = pid, amount = v,
             invested_at = t, status = st, expected_return = JNull,
             actual_return = JNull, maturity_date = None, note_text = txt\<rparr>)
         = JNum (calculateExpectedReturn product v None)"
  using assms by (simp_all add: beforeCreate_def)

lemma calculateExpectedReturn_formula:
  "calculateExpectedReturn this amt None
     = num_mul (ToNumber amt)
         (num_pow (num_add (Num 1)
                     (num_div (num_div (ToNumber (annual_yield this)) (Num 100)) (Num 12)))
                  (tenure_months this))"
  by (simp add: calculateExpectedReturn_def)

lemma calculateExpectedReturn_numbers:
  assumes "ToNumber (annual_yield this) = Num y"
  shows "calculateExpectedReturn this (JNum (Num a)) None
           = Num (a * (1 + y / 100 / 12) ^ tenure_months this)"
  using assms by (simp add: calculateExpectedReturn_formula ToNumber_simps num_simps)

lemma create_route_InrD:
  assumes "create_route rt s w fresh uid body = Inr (s', created)"
  shows "\<exists>product inst.
           createInvestment_rules rt body
           \<and> products s (body_product_id body) = Some product \<and> is_active product
           \<and> validateInvestmentAmount (body_amount body) product = IsValid
           \<and> Investment_create rt s w fresh uid (body_product_id body)
                 (parseFloat (body_amount body)) (map_option (trim rt) (body_notes body))
               = Inr (s', inst)
           \<and> findByPk_investment s' (investment_pk inst) = Some created"
  using assms
  by (auto simp add: create_route_def Let_def
      split: option.splits if_splits validation.splits sum.splits)

text \<open>
  Claim C2. An investment created through \<^verbatim>\<open>POST /\<close> is the stored form of an instance
  whose expected return the hook computed as \<open>amount * (1 + annual_yield / 100 / 12) ^
  tenure_months\<close> from the parsed amount and the product's yield and tenure, monthly
  compounding. For amount 1000, yield 12 and tenure 12 this is \<open>1000 * 1.01 ^ 12\<close>,
  which rounds to 1126.83 and is not the simple interest 1120.
\<close>

theorem create_expected_return:
  "(create_route rt s w fresh uid body = Inr (s', created) \<longrightarrow>
      (\<exists>product inst a.
         products s (body_product_id body) = Some product
         \<and> parseFloat (body_amount body) = Num a
         \<and> amount inst = JNum (Num a)
         \<and> expected_return inst
             = JNum (num_mul (Num a)
                 (num_pow (num_add (Num 1)
                     (num_div (num_div (ToNumber (annual_yield product)) (Num 100)) (Num 12)))
                   (tenure_months product)))
         \<and> (\<forall>y. ToNumber (annual_yield product) = Num y \<longrightarrow>
               expected_return inst
                 = JNum (Num (a * (1 + y / 100 / 12) ^ tenure_months product)))
         \<and> created = asRow rt inst
         \<and> investments s' = investments s @ [created]))
   \<and> (ToNumber (annual_yield this) = Num 12 \<and> tenure_months this = 12 \<longrightarrow>
        calculateExpectedReturn this (JNum (Num 1000)) None = Num (1000 * (101 / 100) ^ 12)
        \<and> \<bar>1000 * (101 / 100) ^ 12 - (1126.83 :: real)\<bar> < 0.005
        \<and> calculateExpectedReturn this (JNum (Num 1000)) None \<noteq> Num (1000 * (1 + 12 / 100)))"
proof (intro conjI impI)
  assume "create_route rt s w fresh uid body = Inr (s', created)"
  from create_route_InrD [OF this] obtain product inst where
    p: "products s (body_product_id body) = Some product"
    and c: "Investment_create rt s w fresh uid (body_product_id body)
                 (parseFloat (body_amount body)) (map_option (trim rt) (body_notes body))
               = Inr (s', inst)"
    and r: "findByPk_investment s' (investment_pk inst) = Some created"
    by blast
  from Investment_create_InrD [OF c] obtain a where
    a: "parseFloat (body_amount body) = Num a"
    and i: "inst = beforeCreate rt s
                 \<lparr>investment_pk = fresh, user_id = uid, product_id = body_product_id body,
                  amount = JNum (parseFloat (body_amount body)),
                  invested_at = system_time w, status = Active, expected_return = JNull,
                  actual_return = JNull, maturity_date = None,
                  note_text = map_option (trim rt) (body_notes body)\<rparr>"
    and n: "findByPk_investment s fresh = None"
    and s': "investments s' = investments s @ [asRow rt inst]"
    by blast
  have pk: "investment_pk inst = fresh"
    unfolding i by (rule beforeCreate_fields(1) [OF p])
  have am: "amount inst = JNum (Num a)"
    unfolding i by (simp add: beforeCreate_fields(2) [OF p] a)
  have er: "expected_return inst = JNum (calculateExpectedReturn product (JNum (Num a)) None)"
    unfolding i by (simp add: beforeCreate_fields(3) [OF p] a)
  have "find (\<lambda>row. investment_pk row = fresh) (investments s @ [asRow rt inst])
          = Some (asRow rt inst)"
    using n by (intro find_append_last) (simp_all add: findByPk_investment_def asRow_def pk)
  with r have cr: "created = asRow rt inst"
    by (simp add: findByPk_investment_def s' pk)
  have f1: "expected_return inst
             = JNum (num_mul (Num a)
                 (num_pow (num_add (Num 1)
                     (num_div (num_div (ToNumber (annual_yield product)) (Num 100)) (Num 12)))
                   (tenure_months product)))"
    by (simp add: er calculateExpectedReturn_formula ToNumber_simps)
  have f2: "\<forall>y. ToNumber (annual_yield product) = Num y \<longrightarrow>
               expected_return inst
                 = JNum (Num (a * (1 + y / 100 / 12) ^ tenure_months product))"
    by (simp add: er calculateExpectedReturn_numbers)
  from p a am f1 f2 cr s' show "\<exists>product inst a.
         products s (body_product_id body) = Some product
         \<and> parseFloat (body_amount body) = Num a
         \<and> amount inst = JNum (Num a)
         \<and> expected_return inst
             = JNum (num_mul (Num a)
                 (num_pow (num_add (Num 1)
                     (num_div (num_div (ToNumber (annual_yield product)) (Num 100)) (Num 12)))
                   (tenure_months product)))
         \<and> (\<forall>y. ToNumber (annual_yield product) = Num y \<longrightarrow>
               expected_return inst
                 = JNum (Num (a * (1 + y / 100 / 12) ^ tenure_months product)))
         \<and> created = asRow rt inst
         \<and> investments s' = investments s @ [created]"
    by blast
next
  assume a: "ToNumber (annual_yield this) = Num 12 \<and> tenure_months this = 12"
  then show e: "calculateExpectedReturn this (JNum (Num 1000)) None = Num (1000 * (101 / 100) ^ 12)"
    by (simp add: calculateExpectedReturn_numbers)
  show "\<bar>1000 * (101 / 100) ^ 12 - (1126.83 :: real)\<bar> < 0.005"
    by (simp add: power_divide)
  show "calculateExpectedReturn this (JNum (Num 1000)) None \<noteq> Num (1000 * (1 + 12 / 100))"
    unfolding e by (simp add: power_divide)
qed

lemma demo_product_checks:
  "products demo_store bond_id = Some demo_product"
  "createInvestment_rules demo_runtime
     \<lparr>body_product_id = bond_id, body_amount = JNum (Num a), body_notes = None\<rparr>
     = (1 / 100 \<le> a)"
  "ToNumber (annual_yield demo_product) = Num 12"
  "tenure_months demo_product = 12"
  by (simp_all add: demo_store_def createInvestment_rules_def demo_runtime_def uuid_shaped_def
      bond_id_def isFloat_min_def demo_product_def ToNumber_simps scan_defs)

theorem create_expected_return_witness:
  "\<exists>s' created.
     create_route demo_runtime demo_store \<lparr>system_time = 0\<rparr> ''i2'' ''u1''
        \<lparr>body_product_id = bond_id, body_amount = JNum (Num 1000), body_notes = None\<rparr>
       = Inr (s', created)
     \<and> expected_return created = JNum (Num (1000 * (101 / 100) ^ 12))
     \<and> calculateExpectedReturn demo_product (JNum (Num 1000)) None = Num (1000 * (101 / 100) ^ 12)"
proof -
  let ?body = "\<lparr>body_product_id = bond_id, body_amount = JNum (Num 1000), body_notes = None\<rparr>"
  have "\<exists>s' created.
     create_route demo_runtime demo_store \<lparr>system_time = 0\<rparr> ''i2'' ''u1'' ?body
       = Inr (s', created)"
    by (simp add: create_route_def demo_product_checks validateInvestmentAmount_def
        Investment_create_def findByPk_investment_def Let_def parseFloat_def)
       (simp add: demo_product_def demo_store_def demo_investment_def js_less_def truthy_def
        ToNumber_simps num_simps scan_defs asRow_def beforeCreate_def)
  then obtain s' created where
    h: "create_route demo_runtime demo_store \<lparr>system_time = 0\<rparr> ''i2'' ''u1'' ?body
       = Inr (s', created)"
    by blast
  from create_expected_return [of demo_runtime demo_store "\<lparr>system_time = 0\<rparr>" "''i2''" "''u1''"
      ?body s' created demo_product] h
  have "expected_return created = JNum (Num (1000 * (101 / 100) ^ 12))
     \<and> calculateExpectedReturn demo_product (JNum (Num 1000)) None = Num (1000 * (101 / 100) ^ 12)"
    by (auto simp add: demo_product_checks parseFloat_def asRow_def decimalOf_def
        demo_runtime_def ToNumber_simps)
  with h show ?thesis by blast
qed




lemma find_map_same_test:
  assumes "\<And>x. P (f x) = P x"
  shows "find P (map f xs) = map_option f (find P xs)"
  by (induction xs) (simp_all add: assms)

lemma findOne_update_status:
  "findOne_investment (update_status s k st) pk uid
     = map_option (\<lambda>row. if investment_pk row = k then row\<lparr>status := st\<rparr> else row)
         (findOne_investment s pk uid)"
  unfolding findOne_investment_def update_status_def
  by (simp add: find_map_same_test)

lemma findOne_SomeD:
  assumes "findOne_investment s pk uid = Some inst"
  shows "investment_pk inst = pk" and "user_id inst = uid" and "inst \<in> set (investments s)"
  using assms unfolding findOne_investment_def
  by (auto simp add: find_Some_iff)

lemma findOne_cancelled:
  assumes "findOne_investment s pk uid = Some inst"
  shows "findOne_investment (update_status s pk Cancelled) pk uid
           = Some (inst\<lparr>status := Cancelled\<rparr>)"
  using assms findOne_SomeD(1) [OF assms] by (simp add: findOne_update_status)

lemma update_status_twice:
  "update_status (update_status s pk st) pk st = update_status s pk st"
  by (simp add: update_status_def comp_def)

lemma update_status_keeps:
  "map expected_return (investments (update_status s pk st)) = map expected_return (investments s)"
  "map maturity_date (investments (update_status s pk st)) = map maturity_date (investments s)"
  "map amount (investments (update_status s pk st)) = map amount (investments s)"
  "map investment_pk (investments (update_status s pk st)) = map investment_pk (investments s)"
  by (simp_all add: update_status_def comp_def)

text \<open>
  Claim C6. For an investment found for its owner, \<^verbatim>\<open>PUT /:id/cancel\<close> rejects a matured
  one as already matured and a cancelled one as already cancelled. An active one becomes
  cancelled, in the response and in the stored row, and no row's \<^verbatim>\<open>expected_return\<close> or
  \<^verbatim>\<open>maturity_date\<close> changes.
\<close>

theorem cancel_route_cases:
  assumes "findOne_investment s pk uid = Some inst"
  shows "(status inst = Matured \<longrightarrow> cancel_route s pk uid = Inl CannotCancelMatured)
     \<and> (status inst = Cancelled \<longrightarrow> cancel_route s pk uid = Inl InvestmentAlreadyCancelled)
     \<and> (status inst = Active \<longrightarrow>
          (\<exists>s'. cancel_route s pk uid = Inr (s', inst\<lparr>status := Cancelled\<rparr>)
             \<and> findOne_investment s' pk uid = Some (inst\<lparr>status := Cancelled\<rparr>)
             \<and> map expected_return (investments s') = map expected_return (investments s)
             \<and> map maturity_date (investments s') = map maturity_date (investments s)))"
proof (intro conjI impI)
  assume "status inst = Matured"
  with assms show "cancel_route s pk uid = Inl CannotCancelMatured"
    by (simp add: cancel_route_def)
next
  assume "status inst = Cancelled"
  with assms show "cancel_route s pk uid = Inl InvestmentAlreadyCancelled"
    by (simp add: cancel_route_def)
next
  assume a: "status inst = Active"
  have pk: "investment_pk inst = pk" by (rule findOne_SomeD(1) [OF assms])
  from a assms pk have "cancel_route s pk uid
      = Inr (update_status s pk Cancelled, inst\<lparr>status := Cancelled\<rparr>)"
    by (simp add: cancel_route_def)
  then show "\<exists>s'. cancel_route s pk uid = Inr (s', inst\<lparr>status := Cancelled\<rparr>)
             \<and> findOne_investment s' pk uid = Some (inst\<lparr>status := Cancelled\<rparr>)
             \<and> map expected_return (investments s') = map expected_return (investments s)
             \<and> map maturity_date (investments s') = map maturity_date (investments s)"
    using findOne_cancelled [OF assms] by (simp add: update_status_keeps)
qed

theorem cancel_route_cases_witness:
  "(\<exists>s'. cancel_route demo_store ''i1'' ''u1'' = Inr (s', demo_investment\<lparr>status := Cancelled\<rparr>))
   \<and> cancel_route (demo_store\<lparr>investments := [demo_investment\<lparr>status := Matured\<rparr>]\<rparr>) ''i1'' ''u1''
       = Inl CannotCancelMatured
   \<and> cancel_route (demo_store\<lparr>investments := [demo_investment\<lparr>status := Cancelled\<rparr>]\<rparr>) ''i1'' ''u1''
       = Inl InvestmentAlreadyCancelled"
proof -
  have "findOne_investment demo_store ''i1'' ''u1'' = Some demo_investment"
    and "findOne_investment (demo_store\<lparr>investments := [demo_investment\<lparr>status := Matured\<rparr>]\<rparr>)
           ''i1'' ''u1'' = Some (demo_investment\<lparr>status := Matured\<rparr>)"
    and "findOne_investment (demo_store\<lparr>investments := [demo_investment\<lparr>status := Cancelled\<rparr>]\<rparr>)
           ''i1'' ''u1'' = Some (demo_investment\<lparr>status := Cancelled\<rparr>)"
    by (simp_all add: findOne_investment_def demo_store_def demo_investment_def)
  from this [THEN cancel_route_cases] show ?thesis
    by (simp add: demo_investment_def) blast
qed

text \<open>The route is its two steps run back to back.\<close>

lemma cancel_step_twice:
  "cancel_route s pk uid =
     (case cancel_step s (Reading pk uid) of
        (s1, t1) \<Rightarrow> (case cancel_step s1 t1 of
           (s2, Responded (Inl e)) \<Rightarrow> Inl e
         | (s2, Responded (Inr inst)) \<Rightarrow> Inr (s2, inst)
         | (s2, _) \<Rightarrow> Inl InternalServerError))"
  by (simp add: cancel_route_def split: option.splits)

text \<open>
  Claim C7, as the code has it. Two cancel calls on the same active investment that run
  one after the other give one success and one rejection as already cancelled. The
  handler reads the status and later writes it without a condition, so this holds for
  calls that do not overlap: when both handlers read before either writes, both
  succeed. In each of the six interleavings of the two calls the stored row ends
  cancelled, at least one call succeeds, and each call answers either with the
  cancelled investment or with the rejection.
\<close>

theorem cancel_twice:
  assumes f: "findOne_investment s pk uid = Some inst" and a: "status inst = Active"
  shows "run [0, 0, 1, 1] (s, [Reading pk uid, Reading pk uid])
           = (update_status s pk Cancelled,
              [Responded (Inr (inst\<lparr>status := Cancelled\<rparr>)),
               Responded (Inl InvestmentAlreadyCancelled)])
     \<and> run [1, 1, 0, 0] (s, [Reading pk uid, Reading pk uid])
           = (update_status s pk Cancelled,
              [Responded (Inl InvestmentAlreadyCancelled),
               Responded (Inr (inst\<lparr>status := Cancelled\<rparr>))])
     \<and> (\<forall>sched \<in> set interleavings.
           fst (run sched (s, [Reading pk uid, Reading pk uid])) = update_status s pk Cancelled
           \<and> (\<exists>t \<in> set (snd (run sched (s, [Reading pk uid, Reading pk uid]))). succeeded t)
           \<and> (\<forall>t \<in> set (snd (run sched (s, [Reading pk uid, Reading pk uid]))).
                 t = Responded (Inr (inst\<lparr>status := Cancelled\<rparr>))
                 \<or> t = Responded (Inl InvestmentAlreadyCancelled)))
     \<and> (\<forall>sched \<in> set overlapping.
           run sched (s, [Reading pk uid, Reading pk uid])
             = (update_status s pk Cancelled,
                [Responded (Inr (inst\<lparr>status := Cancelled\<rparr>)),
                 Responded (Inr (inst\<lparr>status := Cancelled\<rparr>))]))"
  using f a findOne_cancelled [OF f] findOne_SomeD(1) [OF f]
  by (simp add: interleavings_def overlapping_def update_status_twice succeeded_def)

theorem cancel_twice_witness:
  "run [0, 0, 1, 1] (demo_store, [Reading ''i1'' ''u1'', Reading ''i1'' ''u1''])
     = (update_status demo_store ''i1'' Cancelled,
        [Responded (Inr (demo_investment\<lparr>status := Cancelled\<rparr>)),
         Responded (Inl InvestmentAlreadyCancelled)])
   \<and> status demo_investment = Active"
proof -
  have "findOne_investment demo_store ''i1'' ''u1'' = Some demo_investment"
    and "status demo_investment = Active"
    by (simp_all add: findOne_investment_def demo_store_def demo_investment_def)
  from cancel_twice [OF this] this(2) show ?thesis by simp
qed

text \<open>
  Claim C7 as stated fails: when both handlers read before either writes, both find the
  investment active and both succeed.
\<close>

theorem cancel_twice_interleaved_counterexample:
  "run [0, 1, 0, 1] (demo_store, [Reading ''i1'' ''u1'', Reading ''i1'' ''u1''])
     = (demo_store\<lparr>investments := [demo_investment\<lparr>status := Cancelled\<rparr>]\<rparr>,
        [Responded (Inr (demo_investment\<lparr>status := Cancelled\<rparr>)),
         Responded (Inr (demo_investment\<lparr>status := Cancelled\<rparr>))])"
  by (simp add: demo_store_def demo_investment_def findOne_investment_def update_status_def)

section \<open>Properties of the portfolio allocation\<close>

lemma set_objectKeys: "set u = UNIV \<Longrightarrow> set (objectKeys u obj) = dom obj"
  by (auto simp add: objectKeys_def)

lemma length_objectKeys:
  assumes "distinct u" and "set u = UNIV"
  shows "length (objectKeys u obj) = card (dom obj)"
proof -
  have "distinct (objectKeys u obj)"
    using assms(1) by (simp add: objectKeys_def)
  then have "card (set (objectKeys u obj)) = length (objectKeys u obj)"
    by (rule distinct_card)
  then show ?thesis
    by (simp add: set_objectKeys [OF assms(2)])
qed

lemma investment_types_listed: "distinct all_investment_types" "set all_investment_types = UNIV"
proof -
  show "distinct all_investment_types" by (simp add: all_investment_types_def)
  have "t \<in> set all_investment_types" for t
    by (cases t) (simp_all add: all_investment_types_def)
  then show "set all_investment_types = UNIV" by blast
qed

lemma risk_levels_listed: "distinct all_risk_levels" "set all_risk_levels = UNIV"
proof -
  show "distinct all_risk_levels" by (simp add: all_risk_levels_def)
  have "t \<in> set all_risk_levels" for t
    by (cases t) (simp_all add: all_risk_levels_def)
  then show "set all_risk_levels = UNIV" by blast
qed

lemma card_investment_types: "card (UNIV :: investment_type set) = 5"
  using distinct_card [OF investment_types_listed(1)]
  by (simp add: investment_types_listed(2)) (simp add: all_investment_types_def)

lemma card_risk_levels: "card (UNIV :: risk_level set) = 3"
  using distinct_card [OF risk_levels_listed(1)]
  by (simp add: risk_levels_listed(2)) (simp add: all_risk_levels_def)

lemma finite_investment_types: "finite (UNIV :: investment_type set)"
  using investment_types_listed(2) [symmetric] by (metis List.finite_set)

lemma finite_risk_levels: "finite (UNIV :: risk_level set)"
  using risk_levels_listed(2) [symmetric] by (metis List.finite_set)

lemma score_count:
  "calculateDiversificationScore typeAlloc riskAlloc
     = Math_round (min (real (card (dom typeAlloc)) / 5) 1 * 60
                   + min (real (card (dom riskAlloc)) / 3) 1 * 40)"
  by (simp add: calculateDiversificationScore_def Let_def
      length_objectKeys [OF investment_types_listed] length_objectKeys [OF risk_levels_listed])

lemma score_table:
  assumes "t \<le> 5" and "r \<le> 3"
  shows "(Math_round (min (real t / 5) 1 * 60 + min (real r / 3) 1 * 40) = 100 \<longleftrightarrow> t = 5 \<and> r = 3)
     \<and> (Math_round (min (real t / 5) 1 * 60 + min (real r / 3) 1 * 40) = 0 \<longleftrightarrow> t = 0 \<and> r = 0)
     \<and> 0 \<le> Math_round (min (real t / 5) 1 * 60 + min (real r / 3) 1 * 40)
     \<and> Math_round (min (real t / 5) 1 * 60 + min (real r / 3) 1 * 40) \<le> 100"
proof -
  from assms(1) have t: "t = 0 \<or> t = 1 \<or> t = 2 \<or> t = 3 \<or> t = 4 \<or> t = 5" by linarith
  from assms(2) have r: "r = 0 \<or> r = 1 \<or> r = 2 \<or> r = 3" by linarith
  from t r show ?thesis
    by (elim disjE) (simp_all add: Math_round_def)
qed

text \<open>
  Claim C8. The diversification score is \<open>round (min (types / 5) 1 * 60 + min (risks / 3)
  1 * 40)\<close> for the numbers of distinct types and risk levels among the keys of the two
  bucket objects. It is 100 exactly when the keys are all five types and all three risk
  levels, and 0 exactly when both objects are empty; it always lies between 0 and 100.
\<close>

theorem diversification_score:
  "calculateDiversificationScore typeBuckets riskBuckets
     = Math_round (min (real (card (dom typeBuckets)) / 5) 1 * 60
                   + min (real (card (dom riskBuckets)) / 3) 1 * 40)
   \<and> (calculateDiversificationScore typeBuckets riskBuckets = 100
        \<longleftrightarrow> dom typeBuckets = UNIV \<and> dom riskBuckets = UNIV)
   \<and> (calculateDiversificationScore typeBuckets riskBuckets = 0
        \<longleftrightarrow> dom typeBuckets = {} \<and> dom riskBuckets = {})
   \<and> 0 \<le> calculateDiversificationScore typeBuckets riskBuckets
   \<and> calculateDiversificationScore typeBuckets riskBuckets \<le> 100"
proof -
  have t5: "card (dom typeBuckets) \<le> 5"
    using card_mono [OF finite_investment_types subset_UNIV, of "dom typeBuckets"]
    by (simp add: card_investment_types)
  have r3: "card (dom riskBuckets) \<le> 3"
    using card_mono [OF finite_risk_levels subset_UNIV, of "dom riskBuckets"]
    by (simp add: card_risk_levels)
  have tfull: "card (dom typeBuckets) = 5 \<longleftrightarrow> dom typeBuckets = UNIV"
    using card_subset_eq [OF finite_investment_types subset_UNIV, of "dom typeBuckets"]
    by (auto simp add: card_investment_types)
  have rfull: "card (dom riskBuckets) = 3 \<longleftrightarrow> dom riskBuckets = UNIV"
    using card_subset_eq [OF finite_risk_levels subset_UNIV, of "dom riskBuckets"]
    by (auto simp add: card_risk_levels)
  have tnone: "card (dom typeBuckets) = 0 \<longleftrightarrow> dom typeBuckets = {}"
    using finite_subset [OF subset_UNIV finite_investment_types, of "dom typeBuckets"]
    by simp
  have rnone: "card (dom riskBuckets) = 0 \<longleftrightarrow> dom riskBuckets = {}"
    using finite_subset [OF subset_UNIV finite_risk_levels, of "dom riskBuckets"]
    by simp
  from score_table [OF t5 r3] show ?thesis
    unfolding score_count tfull rfull tnone rnone by simp
qed

text \<open>
  Claim C9 fails on rows read from the database. Two active investments of one user,
  valued at their maturity date, have the current values \<^verbatim>\<open>'1100.00'\<close> and \<^verbatim>\<open>'3600.00'\<close>,
  4700 together. The loop adds them with \<^verbatim>\<open>+\<close>, which concatenates: the total is the
  string \<^verbatim>\<open>'01100.003600.00'\<close>, not a number, the test \<^verbatim>\<open>totalValue > 0\<close> is false and
  every bucket gets 0 percent, where the claim asks for percentages that sum to 100.
\<close>

theorem allocation_stored_rows:
  "\<exists>d. allocation_route rt stored_portfolio \<lparr>system_time = 864000000\<rparr> ''u1'' = Inr d
     \<and> total_portfolio_value d = JStr ''01100.003600.00''
     \<and> by_type d Bond = Some \<lparr>bucket_value = JStr ''01100.00'', percentage = Num 0\<rparr>
     \<and> by_type d Mf = Some \<lparr>bucket_value = JStr ''03600.00'', percentage = Num 0\<rparr>
     \<and> percentages all_investment_types (by_type d) = [Num 0, Num 0]
     \<and> percentages all_risk_levels (by_risk d) = [Num 0, Num 0]
     \<and> percentages all_tenure_ranges (by_tenure d) = [Num 0, Num 0]"
proof -
  have rows: "findAll_active stored_portfolio ''u1''
      = [(stored_investment, Some demo_product),
         (stored_investment\<lparr>investment_pk := ''i2'', product_id := fund_id,
                            amount := JStr ''3000.00'', expected_return := JStr ''3600.00''\<rparr>,
          Some (demo_product\<lparr>investment_type := Mf, tenure_months := 24, risk_level := High\<rparr>))]"
    by (simp add: findAll_active_def stored_portfolio_def stored_investment_def
        demo_investment_def bond_id_def fund_id_def)
  have cv: "getCurrentValue rt stored_investment \<lparr>system_time = 864000000\<rparr> = JStr ''1100.00''"
    "getCurrentValue rt (stored_investment\<lparr>investment_pk := ''i2'', product_id := fund_id,
                            amount := JStr ''3000.00'', expected_return := JStr ''3600.00''\<rparr>)
        \<lparr>system_time = 864000000\<rparr> = JStr ''3600.00''"
    by (simp_all add: getCurrentValue_def stored_investment_def demo_investment_def truthy_def
        getTime_def)
  have zero: "ToString rt (JNum (Num 0)) = ''0''" "ToString rt (JStr t) = t" for t
    by (simp_all add: ToString_def NumberToString_def natToString.simps)
  have nan: "\<not> js_less (JNum (Num 0)) (JStr ''01100.003600.00'')"
    by (simp add: js_less_def ToNumber_simps num_less_def scan_defs)
  show ?thesis
    by (simp add: allocation_route_def rows allocation_body_def cv accumulate_def js_add_def
        zero no_allocations_def demo_product_def tenureRange_def convertToPercentages_def nan
        percentages_def objectKeys_def all_investment_types_def all_risk_levels_def
        all_tenure_ranges_def Let_def)
qed

end
